theory Spec2Isabelle
  imports Main "HOL-Library.Sublist"
begin

section \<open>Data model of PolicyPrivilegeForm.tsx\<close>

text \<open>
  The component is a function of its props, of the values its hooks return and of two
  pieces of local state. It reports changes through the callbacks \<open>setResources\<close> and
  \<open>setPrivileges\<close> and through two lazy search queries; every handler is modelled as the
  function that computes the argument handed to the callback it calls.

  JavaScript strings are modelled as \<^typ>\<open>string\<close>, that is as sequences of code units
  below 256; \<open>.length\<close> is \<^const>\<open>length\<close>. An expression that may be \<open>undefined\<close> or
  \<open>null\<close> has an \<^typ>\<open>'a option\<close> type, and \<open>a || b\<close> on it is a case distinction.
\<close>

text \<open>The enums of types.generated: only the members the component names are known.\<close>

datatype PolicyType = Platform | OtherPolicyType string

datatype EntityType = Domain | OtherEntityType string

text \<open>An entity as the component reads it: \<open>entity.urn\<close> and \<open>entity.type\<close>.\<close>

record Entity =
  urn :: string
  type :: EntityType

record SearchResult =
  entity :: Entity

text \<open>A privilege of the catalog: \<open>priv.type\<close> and \<open>priv.displayName\<close>.\<close>

record Privilege =
  type :: string
  displayName :: string

text \<open>An entry of \<open>policiesConfig.resourcePrivileges\<close>; further fields are the extension.\<close>

record ResourcePrivileges =
  resourceType :: string
  resourceTypeDisplayName :: string

record PoliciesConfig =
  platformPrivileges :: "Privilege list"
  resourcePrivileges :: "ResourcePrivileges list"

text \<open>
  The resource filter: named criteria, each holding values; a value is a string with an
  optional resolved entity. The fallback literal of the handlers is \<open>{ criteria: [] }\<close>.
\<close>

record PolicyMatchCriterionValue =
  "value" :: string
  entity :: "Entity option"

record PolicyMatchCriterion =
  field :: string
  "values" :: "PolicyMatchCriterionValue list"

record PolicyMatchFilter =
  criteria :: "PolicyMatchCriterion list"

text \<open>
  \<open>ResourceFilter\<close>: the component touches the field \<open>filter\<close> only. All other fields of
  the object are the extension part of the record, which \<open>{ ...resources, filter: f }\<close>
  copies.
\<close>

record ResourceFilter =
  filter' :: "PolicyMatchFilter option"

text \<open>
  The imports from \<open>./policyUtils\<close>. That module is not part of the sources, so its
  functions and the constant \<open>EMPTY_POLICY.resources\<close> are parameters of the model.
  \<open>getFieldValues\<close> may return \<open>undefined\<close>: three of its four call sites guard the
  result with \<open>|| []\<close>.
\<close>

record 'r policyUtils =
  convertLegacyResourceFilter :: "'r ResourceFilter_scheme option \<Rightarrow> 'r ResourceFilter_scheme option"
  createCriterionValue :: "string \<Rightarrow> PolicyMatchCriterionValue"
  createCriterionValueWithEntity :: "string \<Rightarrow> Entity option \<Rightarrow> PolicyMatchCriterionValue"
  EMPTY_POLICY_resources :: "'r ResourceFilter_scheme"
  getFieldValues :: "PolicyMatchFilter option \<Rightarrow> string \<Rightarrow> PolicyMatchCriterionValue list option"
  mapResourceTypeToDisplayName :: "string \<Rightarrow> ResourcePrivileges list \<Rightarrow> string"
  mapResourceTypeToEntityType :: "string \<Rightarrow> ResourcePrivileges list \<Rightarrow> EntityType option"
  mapResourceTypeToPrivileges :: "string list \<Rightarrow> ResourcePrivileges list \<Rightarrow> Privilege list"
  setFieldValues :: "PolicyMatchFilter \<Rightarrow> string \<Rightarrow> PolicyMatchCriterionValue list \<Rightarrow> PolicyMatchFilter"

text \<open>
  What the hooks return in one render: the display-name lookup of the entity registry,
  \<open>config.policiesConfig\<close>, and the results of the two lazy queries
  (\<open>data?.searchAcrossEntities?.searchResults\<close> and \<open>data?.search?.searchResults\<close>).
\<close>

record hooks =
  entityRegistry_getDisplayName :: "EntityType \<Rightarrow> Entity \<Rightarrow> string"
  policiesConfig :: "PoliciesConfig option"
  resourceSearchResults :: "SearchResult list option"
  domainSearchResults :: "SearchResult list option"

text \<open>The props; the prop \<open>resources\<close> is optional and bound to \<open>maybeResources\<close>.\<close>

record 'r Props =
  policyType :: PolicyType
  maybeResources :: "'r ResourceFilter_scheme option"
  privileges :: "string list"

text \<open>The two \<open>useState\<close> cells, initially \<open>''\<close> and \<open>false\<close>.\<close>

record State =
  domainInputValue :: string
  isFocusedOnInput :: bool

definition initialState :: State where
  "initialState = \<lparr>domainInputValue = [], isFocusedOnInput = False\<rparr>"

datatype JSError = TypeError

section \<open>Values computed in the render\<close>

text \<open>\<open>xs || []\<close> for a possibly undefined array (an array is always truthy).\<close>

definition orEmpty :: "'a list option \<Rightarrow> 'a list" where
  "orEmpty m = (case m of None \<Rightarrow> [] | Some xs \<Rightarrow> xs)"

definition resources :: "'r policyUtils \<Rightarrow> 'r Props \<Rightarrow> 'r ResourceFilter_scheme" where
  "resources u p =
     (case convertLegacyResourceFilter u (maybeResources p) of
        Some r \<Rightarrow> r
      | None \<Rightarrow> EMPTY_POLICY_resources u)"

definition resourceTypes :: "'r policyUtils \<Rightarrow> 'r Props \<Rightarrow> PolicyMatchCriterionValue list" where
  "resourceTypes u p = orEmpty (getFieldValues u (filter' (resources u p)) ''TYPE'')"

definition resourceEntities :: "'r policyUtils \<Rightarrow> 'r Props \<Rightarrow> PolicyMatchCriterionValue list" where
  "resourceEntities u p = orEmpty (getFieldValues u (filter' (resources u p)) ''URN'')"

definition domains :: "'r policyUtils \<Rightarrow> 'r Props \<Rightarrow> PolicyMatchCriterionValue list" where
  "domains u p = orEmpty (getFieldValues u (filter' (resources u p)) ''DOMAIN'')"

text \<open>\<open>getDisplayName\<close> returns \<open>null\<close> for a missing entity.\<close>

definition getDisplayName :: "hooks \<Rightarrow> Entity option \<Rightarrow> string option" where
  "getDisplayName h e =
     (case e of
        None \<Rightarrow> None
      | Some ent \<Rightarrow> Some (entityRegistry_getDisplayName h (Entity.type ent) ent))"

text \<open>
  The two lookup objects are created by \<open>new Map()\<close> but written and read as plain
  properties: \<open>obj[v.value] = getDisplayName(v.entity)\<close> and \<open>obj[key]\<close>. Such an object has
  its own properties and, as long as it has its prototype, the members of
  \<open>Map.prototype\<close> and \<open>Object.prototype\<close>. The values that may come out of a read:
  \<open>undefined\<close>, \<open>null\<close>, a string, a number, or a function or object found on the
  prototype chain (named by the key under which it was found).
\<close>

datatype JSValue = Undefined | Null | Str string | Num int | Inherited string

text \<open>
  The own properties hold a display name or \<open>null\<close>; the latest entry for a key is the
  first one in the list.
\<close>

record LookupObject =
  own :: "(string \<times> string option) list"
  hasPrototype :: bool

definition newMap :: LookupObject where
  "newMap = \<lparr>own = [], hasPrototype = True\<rparr>"

text \<open>
  The function-valued properties of \<open>Map.prototype\<close> and \<open>Object.prototype\<close> (ECMAScript
  2023, with its annex for web browsers). They are writable, so an assignment under such
  a key creates an own property. The two accessor properties are \<open>size\<close>, with a getter
  only, and \<open>__proto__\<close>.
\<close>

definition prototypeMethods :: "string list" where
  "prototypeMethods =
     [''clear'', ''constructor'', ''delete'', ''entries'', ''forEach'', ''get'', ''has'',
      ''keys'', ''set'', ''values'',
      ''hasOwnProperty'', ''isPrototypeOf'', ''propertyIsEnumerable'', ''toLocaleString'',
      ''toString'', ''valueOf'', ''__defineGetter__'', ''__defineSetter__'',
      ''__lookupGetter__'', ''__lookupSetter__'']"

text \<open>
  \<open>obj[key] = x\<close> in strict code, for \<open>x\<close> a string or \<open>null\<close>. An own property is
  overwritten. Otherwise, with the prototype in place, \<open>size\<close> has no setter and the
  assignment throws a TypeError; the setter of \<open>__proto__\<close> ignores a string and, given
  \<open>null\<close>, removes the prototype of the object. In every other case the property is
  created.
\<close>

definition assign :: "LookupObject \<Rightarrow> string \<Rightarrow> string option \<Rightarrow> JSError + LookupObject" where
  "assign obj key x =
     (if map_of (own obj) key \<noteq> None then Inr (obj\<lparr>own := (key, x) # own obj\<rparr>)
      else if hasPrototype obj \<and> key = ''size'' then Inl TypeError
      else if hasPrototype obj \<and> key = ''__proto__'' then
        (case x of
           None \<Rightarrow> Inr (obj\<lparr>hasPrototype := False\<rparr>)
         | Some name \<Rightarrow> Inr obj)
      else Inr (obj\<lparr>own := (key, x) # own obj\<rparr>))"

text \<open>
  \<open>obj[key]\<close>: an own property if there is one; otherwise, with the prototype in place,
  the getter of \<open>size\<close> gives 0 (nothing is ever stored in the map itself), the getter of
  \<open>__proto__\<close> gives \<open>Map.prototype\<close>, and a method name gives that method.
\<close>

definition readProperty :: "LookupObject \<Rightarrow> string \<Rightarrow> JSValue" where
  "readProperty obj key =
     (case map_of (own obj) key of
        Some None \<Rightarrow> Null
      | Some (Some name) \<Rightarrow> Str name
      | None \<Rightarrow>
          (if \<not> hasPrototype obj then Undefined
           else if key = ''size'' then Num 0
           else if key = ''__proto__'' then Inherited key
           else if key \<in> set prototypeMethods then Inherited key
           else Undefined))"

text \<open>The \<open>forEach\<close> loop over the criterion values; it ends at the first assignment that throws.\<close>

fun assignEach ::
  "hooks \<Rightarrow> LookupObject \<Rightarrow> PolicyMatchCriterionValue list \<Rightarrow> JSError + LookupObject" where
  "assignEach h obj [] = Inr obj"
| "assignEach h obj (v # vs) =
     (case assign obj (value v) (getDisplayName h (PolicyMatchCriterionValue.entity v)) of
        Inl e \<Rightarrow> Inl e
      | Inr obj' \<Rightarrow> assignEach h obj' vs)"

definition urnToDisplayName ::
  "hooks \<Rightarrow> PolicyMatchCriterionValue list \<Rightarrow> JSError + LookupObject" where
  "urnToDisplayName h vs = assignEach h newMap vs"

definition resourceUrnToDisplayName ::
  "'r policyUtils \<Rightarrow> hooks \<Rightarrow> 'r Props \<Rightarrow> JSError + LookupObject" where
  "resourceUrnToDisplayName u h p = urnToDisplayName h (resourceEntities u p)"

definition domainUrnToDisplayName ::
  "'r policyUtils \<Rightarrow> hooks \<Rightarrow> 'r Props \<Rightarrow> JSError + LookupObject" where
  "domainUrnToDisplayName u h p = urnToDisplayName h (domains u p)"

definition showResourceFilterInput :: "'r Props \<Rightarrow> bool" where
  "showResourceFilterInput p = (policyType p \<noteq> Platform)"

definition resourceTypeSelectValue :: "'r policyUtils \<Rightarrow> 'r Props \<Rightarrow> string list" where
  "resourceTypeSelectValue u p = map value (resourceTypes u p)"

definition resourceSelectValue :: "'r policyUtils \<Rightarrow> 'r Props \<Rightarrow> string list" where
  "resourceSelectValue u p = map value (resourceEntities u p)"

text \<open>
  \<open>domainSelectValue\<close> calls \<open>.map\<close> on the result of \<open>getFieldValues\<close> with no \<open>|| []\<close>:
  on \<open>undefined\<close> that is a TypeError thrown by the render.
\<close>

definition domainSelectValue :: "'r policyUtils \<Rightarrow> 'r Props \<Rightarrow> JSError + string list" where
  "domainSelectValue u p =
     (case getFieldValues u (filter' (resources u p)) ''DOMAIN'' of
        None \<Rightarrow> Inl TypeError
      | Some vs \<Rightarrow> Inr (map value vs))"

definition privilegesSelectValue :: "'r Props \<Rightarrow> string list" where
  "privilegesSelectValue p = privileges p"

text \<open>\<open>!domainInputValue && isFocusedOnInput\<close>: a string is falsy exactly when empty.\<close>

definition isShowingDomainNavigator :: "State \<Rightarrow> bool" where
  "isShowingDomainNavigator s = (domainInputValue s = [] \<and> isFocusedOnInput s)"

definition platformPrivilegesOf :: "hooks \<Rightarrow> Privilege list" where
  "platformPrivilegesOf h =
     (case policiesConfig h of None \<Rightarrow> [] | Some c \<Rightarrow> platformPrivileges c)"

definition resourcePrivilegesOf :: "hooks \<Rightarrow> ResourcePrivileges list" where
  "resourcePrivilegesOf h =
     (case policiesConfig h of None \<Rightarrow> [] | Some c \<Rightarrow> resourcePrivileges c)"

definition resourcePrivilegesForType :: "'r policyUtils \<Rightarrow> hooks \<Rightarrow> 'r Props \<Rightarrow> Privilege list" where
  "resourcePrivilegesForType u h p =
     mapResourceTypeToPrivileges u (resourceTypeSelectValue u p) (resourcePrivilegesOf h)"

definition privilegeOptions :: "'r policyUtils \<Rightarrow> hooks \<Rightarrow> 'r Props \<Rightarrow> Privilege list" where
  "privilegeOptions u h p =
     (if policyType p = Platform then platformPrivilegesOf h else resourcePrivilegesForType u h p)"

text \<open>\<open>searchResults?.map((result) => result.entity).find((entity) => entity.urn === urn)\<close>\<close>

definition getEntityFromSearchResults :: "SearchResult list option \<Rightarrow> string \<Rightarrow> Entity option" where
  "getEntityFromSearchResults searchResults u =
     (case searchResults of
        None \<Rightarrow> None
      | Some rs \<Rightarrow> find (\<lambda>ent. urn ent = u) (map SearchResult.entity rs))"

section \<open>Privilege handlers\<close>

text \<open>Each returns the list passed to \<open>setPrivileges\<close>.\<close>

definition onSelectPrivilege :: "'r policyUtils \<Rightarrow> hooks \<Rightarrow> 'r Props \<Rightarrow> string \<Rightarrow> string list" where
  "onSelectPrivilege u h p privilege =
     (if privilege = ''All''
      then map Privilege.type (privilegeOptions u h p)
      else (let newPrivs = privileges p @ [privilege] in newPrivs))"

definition onDeselectPrivilege :: "'r Props \<Rightarrow> string \<Rightarrow> string list" where
  "onDeselectPrivilege p privilege =
     (if privilege = ''All''
      then []
      else filter (\<lambda>priv. priv \<noteq> privilege) (privileges p))"

section \<open>Resource filter handlers\<close>

text \<open>
  Each returns the object passed to \<open>setResources\<close>. All of them start with
  \<open>const filter = resources.filter || { criteria: [] }\<close> and end with
  \<open>{ ...resources, filter: setFieldValues(filter, FIELD, newValues) }\<close>.
\<close>

definition filterOrFallback :: "'r ResourceFilter_scheme \<Rightarrow> PolicyMatchFilter" where
  "filterOrFallback r = (case filter' r of None \<Rightarrow> \<lparr>criteria = []\<rparr> | Some f \<Rightarrow> f)"

definition onSelectResourceType ::
  "'r policyUtils \<Rightarrow> 'r Props \<Rightarrow> string \<Rightarrow> 'r ResourceFilter_scheme" where
  "onSelectResourceType u p selectedResourceType =
     (let fltr = filterOrFallback (resources u p) in
      (resources u p)\<lparr>filter' := Some (setFieldValues u fltr ''TYPE''
         (resourceTypes u p @ [createCriterionValue u selectedResourceType]))\<rparr>)"

definition onDeselectResourceType ::
  "'r policyUtils \<Rightarrow> 'r Props \<Rightarrow> string \<Rightarrow> 'r ResourceFilter_scheme" where
  "onDeselectResourceType u p deselectedResourceType =
     (let fltr = filterOrFallback (resources u p) in
      (resources u p)\<lparr>filter' := Some (setFieldValues u fltr ''TYPE''
         (filter (\<lambda>criterionValue. value criterionValue \<noteq> deselectedResourceType)
            (resourceTypes u p)))\<rparr>)"

definition onSelectResource ::
  "'r policyUtils \<Rightarrow> hooks \<Rightarrow> 'r Props \<Rightarrow> string \<Rightarrow> 'r ResourceFilter_scheme" where
  "onSelectResource u h p resource =
     (let fltr = filterOrFallback (resources u p) in
      (resources u p)\<lparr>filter' := Some (setFieldValues u fltr ''URN''
         (resourceEntities u p @
            [createCriterionValueWithEntity u resource
               (getEntityFromSearchResults (resourceSearchResults h) resource)]))\<rparr>)"

definition onDeselectResource ::
  "'r policyUtils \<Rightarrow> 'r Props \<Rightarrow> string \<Rightarrow> 'r ResourceFilter_scheme" where
  "onDeselectResource u p resource =
     (let fltr = filterOrFallback (resources u p) in
      (resources u p)\<lparr>filter' := Some (setFieldValues u fltr ''URN''
         (filter (\<lambda>criterionValue. value criterionValue \<noteq> resource)
            (resourceEntities u p)))\<rparr>)"

text \<open>\<open>domainObj || getEntityFromSearchResults(domainSearchResults, domainUrn)\<close>, then \<open>|| null\<close>.\<close>

definition onSelectDomain ::
  "'r policyUtils \<Rightarrow> hooks \<Rightarrow> 'r Props \<Rightarrow> string \<Rightarrow> Entity option \<Rightarrow> 'r ResourceFilter_scheme" where
  "onSelectDomain u h p domainUrn domainObj =
     (let fltr = filterOrFallback (resources u p);
          domainEntity = (case domainObj of
                            Some d \<Rightarrow> Some d
                          | None \<Rightarrow> getEntityFromSearchResults (domainSearchResults h) domainUrn);
          updatedFilter = setFieldValues u fltr ''DOMAIN''
            (domains u p @ [createCriterionValueWithEntity u domainUrn domainEntity])
      in (resources u p)\<lparr>filter' := Some updatedFilter\<rparr>)"

definition onDeselectDomain ::
  "'r policyUtils \<Rightarrow> 'r Props \<Rightarrow> string \<Rightarrow> 'r ResourceFilter_scheme" where
  "onDeselectDomain u p domain =
     (let fltr = filterOrFallback (resources u p) in
      (resources u p)\<lparr>filter' := Some (setFieldValues u fltr ''DOMAIN''
         (filter (\<lambda>criterionValue. value criterionValue \<noteq> domain) (domains u p)))\<rparr>)"

section \<open>Local state handlers\<close>

text \<open>\<open>onFocus\<close> of the domain select.\<close>

definition onFocus :: "State \<Rightarrow> State" where
  "onFocus s = s\<lparr>isFocusedOnInput := True\<rparr>"

definition handleBlur :: "State \<Rightarrow> State" where
  "handleBlur s = s\<lparr>domainInputValue := []\<rparr>"

text \<open>The state after the zero-delay timeout of \<open>handleCLickOutside\<close> has fired.\<close>

definition handleCLickOutside :: "State \<Rightarrow> State" where
  "handleCLickOutside s = s\<lparr>isFocusedOnInput := False\<rparr>"

text \<open>Reports the new resources and clears the focus flag.\<close>

definition selectDomainFromBrowser ::
  "'r policyUtils \<Rightarrow> hooks \<Rightarrow> 'r Props \<Rightarrow> State \<Rightarrow> Entity \<Rightarrow> 'r ResourceFilter_scheme \<times> State" where
  "selectDomainFromBrowser u h p s domain =
     (onSelectDomain u h p (urn domain) (Some domain), s\<lparr>isFocusedOnInput := False\<rparr>)"

section \<open>Search handlers\<close>

text \<open>
  \<open>String.prototype.trim\<close> strips white space and line terminators from both ends. Among
  the code units below 256 these are TAB, LF, VT, FF, CR, SPACE and NO-BREAK SPACE.
\<close>

definition isWhiteSpace :: "char \<Rightarrow> bool" where
  "isWhiteSpace c =
     (c \<in> set [CHR 0x09, CHR 0x0A, CHR 0x0B, CHR 0x0C, CHR 0x0D, CHR 0x20, CHR 0xA0])"

definition trim :: "string \<Rightarrow> string" where
  "trim text = rev (dropWhile isWhiteSpace (rev (dropWhile isWhiteSpace text)))"

text \<open>The \<open>input\<close> objects of the two queries.\<close>

record QueryWindow =
  query :: string
  start :: int
  count :: int

record SearchAcrossEntitiesInput = QueryWindow +
  types :: "EntityType list"

record SearchInput = QueryWindow +
  type :: EntityType

text \<open>Returns the input of the \<open>searchResources\<close> call.\<close>

definition handleResourceSearch ::
  "'r policyUtils \<Rightarrow> hooks \<Rightarrow> 'r Props \<Rightarrow> string \<Rightarrow> SearchAcrossEntitiesInput" where
  "handleResourceSearch u h p text =
     (let trimmedText = trim text;
          entityTypes = map the (filter (\<lambda>entityType. entityType \<noteq> None)
            (map (\<lambda>resourceType. mapResourceTypeToEntityType u resourceType (resourcePrivilegesOf h))
               (resourceTypeSelectValue u p)))
      in \<lparr>query = (if length trimmedText > 2 then trimmedText else ''*''),
          start = 0, count = 10, types = entityTypes\<rparr>)"

text \<open>Returns the state after \<open>setDomainInputValue\<close> and the input of the \<open>searchDomains\<close> call.\<close>

definition handleDomainSearch :: "State \<Rightarrow> string \<Rightarrow> State \<times> SearchInput" where
  "handleDomainSearch s text =
     (let trimmedText = trim text
      in (s\<lparr>domainInputValue := trimmedText\<rparr>,
          \<lparr>query = (if length trimmedText > 2 then trimmedText else ''*''),
           start = 0, count = 10, type = Domain\<rparr>))"

section \<open>Rendering\<close>

text \<open>
  The second argument is a length bound; both call sites pass 75.
  \<open>substring(0, n)\<close> with \<open>0 \<le> n \<le> length\<close> is \<^const>\<open>take\<close>.
\<close>

definition displayStringWithMaxLength :: "string \<Rightarrow> nat \<Rightarrow> string" where
  "displayStringWithMaxLength displayStr len =
     (if length displayStr > len
      then take (min len (length displayStr)) displayStr @ ''...''
      else displayStr)"

text \<open>
  \<open>obj[v] || v\<close>: what the read gives if that is truthy, the value \<open>v\<close> otherwise.
  \<open>undefined\<close>, \<open>null\<close>, the empty string and 0 are falsy.
\<close>

definition truthy :: "JSValue \<Rightarrow> bool" where
  "truthy x =
     (case x of
        Undefined \<Rightarrow> False
      | Null \<Rightarrow> False
      | Str name \<Rightarrow> name \<noteq> []
      | Num n \<Rightarrow> n \<noteq> 0
      | Inherited key \<Rightarrow> True)"

definition nameOrValue :: "JSValue \<Rightarrow> string \<Rightarrow> JSValue" where
  "nameOrValue x v = (if truthy x then x else Str v)"

text \<open>The content of the tag that \<open>tagRender\<close> produces for a selected value.\<close>

definition resourceTypeTag :: "'r policyUtils \<Rightarrow> hooks \<Rightarrow> string \<Rightarrow> JSValue" where
  "resourceTypeTag u h v = Str (mapResourceTypeToDisplayName u v (resourcePrivilegesOf h))"

text \<open>
  The tags of the resource select and of the domain select:
  \<open>displayStringWithMaxLength(obj[v] || v, 75)\<close>. On a string this is the function above.
  A number has no \<open>length\<close>, \<open>Map.prototype\<close> has none either, and the \<open>length\<close> of a
  built-in method is its number of parameters, at most 2: the comparison with 75 is
  false and the value is returned as it is.
\<close>

definition displayNameTag :: "LookupObject \<Rightarrow> string \<Rightarrow> JSValue" where
  "displayNameTag obj v =
     (case nameOrValue (readProperty obj v) v of
        Str displayStr \<Rightarrow> Str (displayStringWithMaxLength displayStr 75)
      | other \<Rightarrow> other)"

text \<open>An option of a select: its value and the text of its label.\<close>

type_synonym SelectOption = "string \<times> string"

definition resourceTypeOptions :: "hooks \<Rightarrow> SelectOption list" where
  "resourceTypeOptions h =
     map (\<lambda>resPrivs. (resourceType resPrivs, resourceTypeDisplayName resPrivs))
       (filter (\<lambda>privs. resourceType privs \<noteq> ''all'') (resourcePrivilegesOf h))"

text \<open>\<open>renderSearchResult\<close> shows the display name (followed by a link to the entity).\<close>

definition searchResultOptions :: "hooks \<Rightarrow> SearchResult list option \<Rightarrow> SelectOption list" where
  "searchResultOptions h results =
     (case results of
        None \<Rightarrow> []
      | Some rs \<Rightarrow>
          map (\<lambda>result. (urn (SearchResult.entity result),
                 entityRegistry_getDisplayName h
                   (Entity.type (SearchResult.entity result)) (SearchResult.entity result))) rs)"

definition privilegeSelectOptions :: "'r policyUtils \<Rightarrow> hooks \<Rightarrow> 'r Props \<Rightarrow> SelectOption list" where
  "privilegeSelectOptions u h p =
     map (\<lambda>priv. (Privilege.type priv, displayName priv)) (privilegeOptions u h p)
     @ [(''All'', ''All Privileges'')]"

text \<open>\<open>isShowingDomainNavigator ? { display: 'none' } : {}\<close>\<close>

definition dropdownStyle :: "State \<Rightarrow> (string \<times> string) list" where
  "dropdownStyle s = (if isShowingDomainNavigator s then [(''display'', ''none'')] else [])"

text \<open>
  What is rendered: a multi-select with its value, one tag per selected value and its
  options; the domain select also has the style of its dropdown and, next to it, the
  \<open>BrowserWrapper\<close> around the domain navigator with its \<open>isHidden\<close> prop.
\<close>

record SelectView =
  selected :: "string list"
  options :: "SelectOption list"

record TagSelectView = SelectView +
  tags :: "JSValue list"

record DomainSelectView = TagSelectView +
  dropdown :: "(string \<times> string) list"
  browserWrapper_isHidden :: bool

record View =
  resourceTypeItem :: "TagSelectView option"
  resourceItem :: "TagSelectView option"
  domainItem :: "DomainSelectView option"
  privilegesItem :: SelectView

text \<open>
  The render. It throws where an assignment to one of the two lookup objects throws and
  where \<open>domainSelectValue\<close> does, in the order of the source; the three filter inputs
  are under \<open>showResourceFilterInput &&\<close>.
\<close>

definition render :: "'r policyUtils \<Rightarrow> hooks \<Rightarrow> 'r Props \<Rightarrow> State \<Rightarrow> JSError + View" where
  "render u h p s =
     (case resourceUrnToDisplayName u h p of
        Inl e \<Rightarrow> Inl e
      | Inr resourceNames \<Rightarrow>
     (case domainUrnToDisplayName u h p of
        Inl e \<Rightarrow> Inl e
      | Inr domainNames \<Rightarrow>
     (case domainSelectValue u p of
        Inl e \<Rightarrow> Inl e
      | Inr dsv \<Rightarrow> Inr
          \<lparr>resourceTypeItem =
             (if showResourceFilterInput p
              then Some \<lparr>selected = resourceTypeSelectValue u p,
                         options = resourceTypeOptions h,
                         tags = map (resourceTypeTag u h) (resourceTypeSelectValue u p)\<rparr>
              else None),
           resourceItem =
             (if showResourceFilterInput p
              then Some \<lparr>selected = resourceSelectValue u p,
                         options = searchResultOptions h (resourceSearchResults h),
                         tags = map (displayNameTag resourceNames) (resourceSelectValue u p)\<rparr>
              else None),
           domainItem =
             (if showResourceFilterInput p
              then Some \<lparr>selected = dsv,
                         options = searchResultOptions h (domainSearchResults h),
                         tags = map (displayNameTag domainNames) dsv,
                         dropdown = dropdownStyle s,
                         browserWrapper_isHidden = (\<not> isShowingDomainNavigator s)\<rparr>
              else None),
           privilegesItem =
             \<lparr>selected = privilegesSelectValue p,
              options = privilegeSelectOptions u h p\<rparr>\<rparr>)))"

section \<open>A stand-in for policyUtils\<close>

text \<open>
  Modelled from the spec: the module policyUtils is not among the sources. This stand-in
  follows the data model of the spec (a filter is a collection of named criteria, each
  holding values) and serves only to run the component on concrete inputs; no theorem
  about the component depends on it. What \<open>getFieldValues\<close> returns for a field that
  the filter does not have is its second parameter: \<open>None\<close> for \<open>undefined\<close>,
  \<open>Some []\<close> for an empty array.
\<close>

definition standInUtils :: "'r \<Rightarrow> PolicyMatchCriterionValue list option \<Rightarrow> 'r policyUtils" where
  "standInUtils rest missing =
     \<lparr>convertLegacyResourceFilter = (\<lambda>r. r),
      createCriterionValue = (\<lambda>v. \<lparr>value = v, entity = None\<rparr>),
      createCriterionValueWithEntity = (\<lambda>v e. \<lparr>value = v, entity = e\<rparr>),
      EMPTY_POLICY_resources = \<lparr>filter' = Some \<lparr>criteria = []\<rparr>, \<dots> = rest\<rparr>,
      getFieldValues = (\<lambda>f k. case f of
          None \<Rightarrow> missing
        | Some g \<Rightarrow>
            (case find (\<lambda>c. field c = k) (criteria g) of
               None \<Rightarrow> missing
             | Some c \<Rightarrow> Some (values c))),
      mapResourceTypeToDisplayName = (\<lambda>t rps.
          case find (\<lambda>rp. resourceType rp = t) rps of
            None \<Rightarrow> t
          | Some rp \<Rightarrow> resourceTypeDisplayName rp),
      mapResourceTypeToEntityType = (\<lambda>t rps.
          if t = ''domain'' then Some Domain
          else if t = ''all'' then None
          else Some (OtherEntityType t)),
      mapResourceTypeToPrivileges = (\<lambda>ts rps.
          map (\<lambda>rp. \<lparr>Privilege.type = resourceType rp, displayName = resourceTypeDisplayName rp\<rparr>)
            (filter (\<lambda>rp. resourceType rp \<in> set ts) rps)),
      setFieldValues = (\<lambda>f k vs.
          \<lparr>criteria = filter (\<lambda>c. field c \<noteq> k) (criteria f) @ [\<lparr>field = k, values = vs\<rparr>]\<rparr>)\<rparr>"

section \<open>Notions used to state the properties\<close>

text \<open>
  The values of a field of a resources object as the component reads them
  (\<open>getFieldValues(r.filter, k) || []\<close>).
\<close>

definition fieldValuesOf ::
  "'r policyUtils \<Rightarrow> 'r ResourceFilter_scheme \<Rightarrow> string \<Rightarrow> PolicyMatchCriterionValue list" where
  "fieldValuesOf u r k = orEmpty (getFieldValues u (filter' r) k)"

text \<open>
  \<open>getFieldValues\<close> reads back the values that \<open>setFieldValues\<close> stored under a field of a
  given filter.
\<close>

definition readsBack ::
  "'r policyUtils \<Rightarrow> PolicyMatchFilter \<Rightarrow> string \<Rightarrow> PolicyMatchCriterionValue list \<Rightarrow> bool" where
  "readsBack u f k vs = (getFieldValues u (Some (setFieldValues u f k vs)) k = Some vs)"

text \<open>
  The display name known for a selected value: that of the entity of the last selected
  criterion value carrying this value, if it has an entity and the name is not empty.
\<close>

definition knownDisplayName ::
  "hooks \<Rightarrow> PolicyMatchCriterionValue list \<Rightarrow> string \<Rightarrow> string option" where
  "knownDisplayName h vs v =
     (case find (\<lambda>c. value c = v) (rev vs) of
        None \<Rightarrow> None
      | Some c \<Rightarrow>
          (case PolicyMatchCriterionValue.entity c of
             None \<Rightarrow> None
           | Some ent \<Rightarrow>
               (let n = entityRegistry_getDisplayName h (Entity.type ent) ent
                in if n = [] then None else Some n)))"

text \<open>The search string of both queries, in the words of the specification.\<close>

definition queryFor :: "string \<Rightarrow> string" where
  "queryFor text = (if 2 < length (trim text) then trim text else ''*'')"

section \<open>Concrete inputs\<close>

definition exampleConfig :: PoliciesConfig where
  "exampleConfig =
     \<lparr>platformPrivileges =
        [\<lparr>Privilege.type = ''MANAGE_POLICIES'', displayName = ''Manage Policies''\<rparr>,
         \<lparr>Privilege.type = ''MANAGE_USERS'', displayName = ''Manage Users''\<rparr>],
      resourcePrivileges =
        [\<lparr>resourceType = ''dataset'', resourceTypeDisplayName = ''Datasets''\<rparr>,
         \<lparr>resourceType = ''all'', resourceTypeDisplayName = ''All''\<rparr>,
         \<lparr>resourceType = ''domain'', resourceTypeDisplayName = ''Domains''\<rparr>]\<rparr>"

definition exampleDataset :: Entity where
  "exampleDataset = \<lparr>urn = ''urn:li:dataset:1'', Entity.type = OtherEntityType ''DATASET''\<rparr>"

definition exampleDomain :: Entity where
  "exampleDomain = \<lparr>urn = ''urn:li:domain:7'', Entity.type = Domain\<rparr>"

definition exampleHooks :: hooks where
  "exampleHooks =
     \<lparr>entityRegistry_getDisplayName = (\<lambda>t ent. ''name of '' @ urn ent),
      policiesConfig = Some exampleConfig,
      resourceSearchResults = Some [\<lparr>SearchResult.entity = exampleDataset\<rparr>],
      domainSearchResults = Some [\<lparr>SearchResult.entity = exampleDomain\<rparr>]\<rparr>"

definition exampleFilter :: PolicyMatchFilter where
  "exampleFilter =
     \<lparr>criteria =
        [\<lparr>field = ''TYPE'',
          values = [\<lparr>value = ''dataset'', entity = None\<rparr>, \<lparr>value = ''all'', entity = None\<rparr>]\<rparr>,
         \<lparr>field = ''URN'',
          values = [\<lparr>value = ''urn:li:dataset:1'', entity = Some exampleDataset\<rparr>,
                    \<lparr>value = ''urn:li:dataset:2'', entity = None\<rparr>]\<rparr>,
         \<lparr>field = ''DOMAIN'',
          values = [\<lparr>value = ''urn:li:domain:7'', entity = Some exampleDomain\<rparr>]\<rparr>]\<rparr>"

text \<open>A resources object with one further field, here a string.\<close>

definition exampleResources :: "string ResourceFilter_scheme" where
  "exampleResources = \<lparr>filter' = Some exampleFilter, \<dots> = ''allResources: false''\<rparr>"

definition exampleProps :: "string Props" where
  "exampleProps =
     \<lparr>policyType = OtherPolicyType ''METADATA'',
      maybeResources = Some exampleResources,
      privileges = [''VIEW_ENTITY_PAGE'', ''EDIT_ENTITY_TAGS'', ''VIEW_ENTITY_PAGE'']\<rparr>"

definition exampleUtils :: "string policyUtils" where
  "exampleUtils = standInUtils ''allResources: true'' (Some [])"


text \<open>Props without the optional \<open>resources\<close>, and props whose resources have no filter.\<close>

definition absentProps :: "string Props" where
  "absentProps = \<lparr>policyType = Platform, maybeResources = None, privileges = []\<rparr>"


text \<open>
  Props whose URN field holds the value \<open>__proto__\<close> with a resolved entity and whose
  TYPE field holds a resource type with a display name of 80 characters, and hooks whose
  configuration has that resource type.
\<close>

definition protoEntity :: Entity where
  "protoEntity = \<lparr>urn = ''__proto__'', Entity.type = OtherEntityType ''DATASET''\<rparr>"

definition protoProps :: "string Props" where
  "protoProps =
     \<lparr>policyType = OtherPolicyType ''METADATA'',
      maybeResources = Some
        \<lparr>filter' = Some
           \<lparr>criteria =
              [\<lparr>field = ''TYPE'', values = [\<lparr>value = ''report'', entity = None\<rparr>]\<rparr>,
               \<lparr>field = ''URN'', values = [\<lparr>value = ''__proto__'', entity = Some protoEntity\<rparr>]\<rparr>]\<rparr>,
         \<dots> = ''allResources: false''\<rparr>,
      privileges = []\<rparr>"

definition longNameHooks :: hooks where
  "longNameHooks =
     \<lparr>entityRegistry_getDisplayName = (\<lambda>t ent. ''name of '' @ urn ent),
      policiesConfig = Some
        \<lparr>platformPrivileges = [],
         resourcePrivileges =
           [\<lparr>resourceType = ''report'',
             resourceTypeDisplayName = replicate 80 CHR ''n''\<rparr>]\<rparr>,
      resourceSearchResults = None,
      domainSearchResults = None\<rparr>"

section \<open>Auxiliary facts\<close>

lemma filter_neq_removeAll: "filter (\<lambda>x. x \<noteq> a) xs = removeAll a xs"
  by (induction xs) auto

lemma count_list_removeAll_other: "q \<noteq> a \<Longrightarrow> count_list (removeAll a xs) q = count_list xs q"
  by (induction xs) auto

lemma subseq_removeAll: "subseq (removeAll a xs) xs"
  by (simp add: removeAll_filter_not_eq)

lemma count_filter_append_ge2:
  "\<exists>c\<in>set xs. P c \<Longrightarrow> P y \<Longrightarrow> 2 \<le> length (filter P (xs @ [y]))"
proof -
  assume "\<exists>c\<in>set xs. P c" and y: "P y"
  then have "filter P xs \<noteq> []" by (simp add: filter_empty_conv)
  then have "1 \<le> length (filter P xs)" by (cases "filter P xs") simp_all
  with y show ?thesis by simp
qed

lemma count_list_append_ge2: "x \<in> set xs \<Longrightarrow> 2 \<le> count_list (xs @ [x]) x"
proof -
  assume "x \<in> set xs"
  then have "0 < count_list xs x" by (induction xs) auto
  then show ?thesis by simp
qed

lemma example_resourceTypes:
  "resourceTypes exampleUtils exampleProps =
     [\<lparr>value = ''dataset'', entity = None\<rparr>, \<lparr>value = ''all'', entity = None\<rparr>]"
  by code_simp

lemmas resource_handler_defs =
  onSelectResourceType_def onDeselectResourceType_def onSelectResource_def
  onDeselectResource_def onSelectDomain_def onDeselectDomain_def



lemma map_the_filter_map:
  "map the (filter (\<lambda>e. e \<noteq> None) (map f xs)) = List.map_filter f xs"
  by (induction xs) (auto simp: List.map_filter_simps)

lemma trim_decomposition:
  "\<exists>pre suf. text = pre @ trim text @ suf \<and> list_all isWhiteSpace pre \<and> list_all isWhiteSpace suf"
proof -
  let ?a = "takeWhile isWhiteSpace text" and ?rest = "dropWhile isWhiteSpace text"
  let ?b = "rev (takeWhile isWhiteSpace (rev ?rest))"
  have "?rest = trim text @ ?b"
    unfolding trim_def
    by (metis rev_append rev_rev_ident takeWhile_dropWhile_id)
  then have "text = ?a @ trim text @ ?b"
    by (metis takeWhile_dropWhile_id)
  moreover have "list_all isWhiteSpace ?a"
    by (simp add: list_all_iff) (metis set_takeWhileD)
  moreover have "list_all isWhiteSpace ?b"
    by (simp add: list_all_iff) (metis set_takeWhileD)
  ultimately show ?thesis by blast
qed

lemma trim_ends:
  assumes "trim text \<noteq> []"
  shows "\<not> isWhiteSpace (hd (trim text))" and "\<not> isWhiteSpace (last (trim text))"
proof -
  let ?rest = "dropWhile isWhiteSpace text"
  let ?stripped = "dropWhile isWhiteSpace (rev ?rest)"
  from assms have bk: "?stripped \<noteq> []" by (simp add: trim_def)
  then have "\<not> isWhiteSpace (hd ?stripped)" by (rule hd_dropWhile)
  with bk show "\<not> isWhiteSpace (last (trim text))"
    by (simp add: trim_def last_rev)
  from bk have rest: "?rest \<noteq> []" by (cases "?rest") simp_all
  have "?rest = trim text @ rev (takeWhile isWhiteSpace (rev ?rest))"
    unfolding trim_def
    by (metis rev_append rev_rev_ident takeWhile_dropWhile_id)
  with assms have "hd (trim text) = hd ?rest"
    by (metis hd_append2)
  with rest show "\<not> isWhiteSpace (hd (trim text))"
    by (simp add: hd_dropWhile)
qed

lemma find_append_case:
  "find P (xs @ ys) = (case find P xs of None \<Rightarrow> find P ys | Some x \<Rightarrow> Some x)"
  by (induction xs) auto

lemma assign_own_other:
  "assign obj key x = Inr obj' \<Longrightarrow> k \<noteq> key \<Longrightarrow> map_of (own obj') k = map_of (own obj) k"
  by (auto simp: assign_def split: if_splits option.splits)

lemma assign_own_same:
  "assign obj key x = Inr obj' \<Longrightarrow> key \<noteq> ''__proto__'' \<Longrightarrow> map_of (own obj') key = Some x"
  by (auto simp: assign_def split: if_splits option.splits)

lemma assignEach_own:
  "assignEach h obj vs = Inr obj' \<Longrightarrow> k \<noteq> ''__proto__'' \<Longrightarrow>
   map_of (own obj') k =
     (case find (\<lambda>c. value c = k) (rev vs) of
        None \<Rightarrow> map_of (own obj) k
      | Some c \<Rightarrow> Some (getDisplayName h (PolicyMatchCriterionValue.entity c)))"
proof (induction vs arbitrary: obj)
  case Nil
  then show ?case by simp
next
  case (Cons v vs)
  from Cons.prems(1) obtain mid where
    mid: "assign obj (value v) (getDisplayName h (PolicyMatchCriterionValue.entity v)) = Inr mid"
    and rest: "assignEach h mid vs = Inr obj'"
    by (auto split: sum.splits)
  have first: "map_of (own mid) k =
      (if value v = k then Some (getDisplayName h (PolicyMatchCriterionValue.entity v))
       else map_of (own obj) k)"
    using mid Cons.prems(2) assign_own_other [OF mid, of k] assign_own_same [OF mid]
    by auto
  from Cons.IH [OF rest Cons.prems(2)] first show ?case
    by (simp add: find_append_case split: option.splits)
qed

lemma displayNameTag_known:
  assumes "urnToDisplayName h vs = Inr obj" and "v \<in> value ` set vs" and "v \<noteq> ''__proto__''"
  shows "displayNameTag obj v =
     Str (displayStringWithMaxLength
            (case knownDisplayName h vs v of None \<Rightarrow> v | Some n \<Rightarrow> n) 75)"
proof -
  from assms(2) obtain c where c: "find (\<lambda>c. value c = v) (rev vs) = Some c"
    by (cases "find (\<lambda>c. value c = v) (rev vs)") (auto simp: find_None_iff)
  from assms(1,3) c have "map_of (own obj) v = Some (getDisplayName h (PolicyMatchCriterionValue.entity c))"
    by (simp add: urnToDisplayName_def assignEach_own)
  with c show ?thesis
    by (simp add: displayNameTag_def readProperty_def nameOrValue_def truthy_def
        knownDisplayName_def getDisplayName_def Let_def split: option.splits)
qed

lemma list_all2_map_same:
  "(\<And>x. x \<in> set xs \<Longrightarrow> P x (f x)) \<Longrightarrow> list_all2 P xs (map f xs)"
  by (induction xs) simp_all

lemma displayNameTags_known:
  assumes "urnToDisplayName h vs = Inr obj"
  shows "list_all2
     (\<lambda>v tag. v \<noteq> ''__proto__'' \<longrightarrow>
        tag = Str (displayStringWithMaxLength
                     (case knownDisplayName h vs v of None \<Rightarrow> v | Some n \<Rightarrow> n) 75))
     (map value vs) (map (displayNameTag obj) (map value vs))"
proof (rule list_all2_map_same)
  fix v
  assume "v \<in> set (map value vs)"
  then have "v \<in> value ` set vs" by simp
  from displayNameTag_known [OF assms this]
  show "v \<noteq> ''__proto__'' \<longrightarrow>
      displayNameTag obj v =
        Str (displayStringWithMaxLength
               (case knownDisplayName h vs v of None \<Rightarrow> v | Some n \<Rightarrow> n) 75)"
    by simp
qed




lemma render_parts:
  assumes "render u h p s = Inr view"
  obtains resourceNames domainNames vs where
    "resourceUrnToDisplayName u h p = Inr resourceNames"
    "domainUrnToDisplayName u h p = Inr domainNames"
    "getFieldValues u (filter' (resources u p)) ''DOMAIN'' = Some vs"
    "resourceTypeItem view =
       (if showResourceFilterInput p
        then Some \<lparr>selected = resourceTypeSelectValue u p,
                   options = resourceTypeOptions h,
                   tags = map (resourceTypeTag u h) (resourceTypeSelectValue u p)\<rparr>
        else None)"
    "resourceItem view =
       (if showResourceFilterInput p
        then Some \<lparr>selected = resourceSelectValue u p,
                   options = searchResultOptions h (resourceSearchResults h),
                   tags = map (displayNameTag resourceNames) (resourceSelectValue u p)\<rparr>
        else None)"
    "domainItem view =
       (if showResourceFilterInput p
        then Some \<lparr>selected = map value vs,
                   options = searchResultOptions h (domainSearchResults h),
                   tags = map (displayNameTag domainNames) (map value vs),
                   dropdown = dropdownStyle s,
                   browserWrapper_isHidden = (\<not> isShowingDomainNavigator s)\<rparr>
        else None)"
  using assms
  by (auto simp: render_def domainSelectValue_def split: sum.splits option.splits)

lemma example_render:
  "render exampleUtils exampleHooks exampleProps (onFocus initialState) =
     Inr (projr (render exampleUtils exampleHooks exampleProps (onFocus initialState)))"
  by code_simp

lemma platform_render:
  "render exampleUtils exampleHooks absentProps initialState =
     Inr (projr (render exampleUtils exampleHooks absentProps initialState))"
  by code_simp

section \<open>Selecting and deselecting privileges\<close>

text \<open>
  C3: \<open>onSelectPrivilege('All')\<close> reports exactly the type identifiers of the current
  privilege options, whatever was selected before; for every other privilege it reports
  the current privileges with that privilege appended at the end.
\<close>

theorem onSelectPrivilege_reports:
  "onSelectPrivilege u h p ''All'' = map Privilege.type (privilegeOptions u h p) \<and>
   (\<forall>privilege. privilege \<noteq> ''All'' \<longrightarrow>
      onSelectPrivilege u h p privilege = privileges p @ [privilege])"
  by (simp add: onSelectPrivilege_def)

theorem onSelectPrivilege_reports_witness:
  "onSelectPrivilege exampleUtils exampleHooks exampleProps ''All'' = [''dataset'', ''all''] \<and>
   ''EDIT_ENTITY_DOCS'' \<noteq> ''All'' \<and>
   onSelectPrivilege exampleUtils exampleHooks exampleProps ''EDIT_ENTITY_DOCS'' =
     [''VIEW_ENTITY_PAGE'', ''EDIT_ENTITY_TAGS'', ''VIEW_ENTITY_PAGE'', ''EDIT_ENTITY_DOCS'']"
proof -
  have ne: "''EDIT_ENTITY_DOCS'' \<noteq> ''All''" by simp
  have opts: "map Privilege.type (privilegeOptions exampleUtils exampleHooks exampleProps)
                = [''dataset'', ''all'']"
    by code_simp
  from onSelectPrivilege_reports [of exampleUtils exampleHooks exampleProps] ne opts
  show ?thesis by (simp add: exampleProps_def)
qed

text \<open>
  C4: \<open>onDeselectPrivilege('All')\<close> reports the empty list; for every other privilege it
  reports the current privileges with every occurrence of that privilege removed, the
  remaining ones in their order and with their multiplicities.
\<close>

theorem onDeselectPrivilege_reports:
  "onDeselectPrivilege p ''All'' = [] \<and>
   (\<forall>privilege. privilege \<noteq> ''All'' \<longrightarrow>
      onDeselectPrivilege p privilege = removeAll privilege (privileges p) \<and>
      privilege \<notin> set (onDeselectPrivilege p privilege) \<and>
      subseq (onDeselectPrivilege p privilege) (privileges p) \<and>
      (\<forall>q. q \<noteq> privilege \<longrightarrow>
         count_list (onDeselectPrivilege p privilege) q = count_list (privileges p) q))"
proof -
  have all: "onDeselectPrivilege p ''All'' = []"
    by (simp add: onDeselectPrivilege_def)
  have other: "onDeselectPrivilege p privilege = removeAll privilege (privileges p)"
    if "privilege \<noteq> ''All''" for privilege
    using that by (simp add: onDeselectPrivilege_def filter_neq_removeAll)
  show ?thesis
    using all other by (simp add: count_list_removeAll_other subseq_removeAll)
qed

theorem onDeselectPrivilege_reports_witness:
  "onDeselectPrivilege exampleProps ''All'' = [] \<and>
   ''VIEW_ENTITY_PAGE'' \<noteq> ''All'' \<and>
   onDeselectPrivilege exampleProps ''VIEW_ENTITY_PAGE'' = [''EDIT_ENTITY_TAGS''] \<and>
   count_list (onDeselectPrivilege exampleProps ''VIEW_ENTITY_PAGE'') ''EDIT_ENTITY_TAGS'' = 1"
proof -
  have ne: "''VIEW_ENTITY_PAGE'' \<noteq> ''All''" "''EDIT_ENTITY_TAGS'' \<noteq> ''VIEW_ENTITY_PAGE''"
    by simp_all
  from onDeselectPrivilege_reports [of exampleProps] ne
  show ?thesis by (simp add: exampleProps_def)
qed

text \<open>
  C1: nothing is deduplicated. Selecting a privilege other than \<open>'All'\<close> that is already
  selected reports a list holding it at least twice. Selecting a resource type \<open>t\<close> that
  the TYPE field already holds hands \<open>setFieldValues\<close> a value list with at least two
  entries of value \<open>t\<close>, and the TYPE field of the reported object, read the way the
  component reads it, has them too. The helpers enter through what the component relies
  on: \<open>createCriterionValue(t)\<close> carries the value \<open>t\<close>, and \<open>getFieldValues\<close> reads back
  what \<open>setFieldValues\<close> stored.
\<close>

theorem select_does_not_deduplicate:
  "(privilege \<in> set (privileges p) \<longrightarrow> privilege \<noteq> ''All'' \<longrightarrow>
      2 \<le> count_list (onSelectPrivilege u h p privilege) privilege) \<and>
   ((\<exists>c\<in>set (resourceTypes u p). value c = t) \<longrightarrow> value (createCriterionValue u t) = t \<longrightarrow>
      filter' (onSelectResourceType u p t) =
        Some (setFieldValues u (filterOrFallback (resources u p)) ''TYPE''
                (resourceTypes u p @ [createCriterionValue u t])) \<and>
      2 \<le> length (filter (\<lambda>c. value c = t) (resourceTypes u p @ [createCriterionValue u t])) \<and>
      (readsBack u (filterOrFallback (resources u p)) ''TYPE''
           (resourceTypes u p @ [createCriterionValue u t]) \<longrightarrow>
         2 \<le> length (filter (\<lambda>c. value c = t)
                (fieldValuesOf u (onSelectResourceType u p t) ''TYPE''))))"
proof -
  have privs: "2 \<le> count_list (onSelectPrivilege u h p privilege) privilege"
    if "privilege \<in> set (privileges p)" "privilege \<noteq> ''All''"
  proof -
    from that(2) have "onSelectPrivilege u h p privilege = privileges p @ [privilege]"
      by (simp add: onSelectPrivilege_def)
    with that(1) show ?thesis
      by (simp only: count_list_append_ge2)
  qed
  have handed: "filter' (onSelectResourceType u p t) =
        Some (setFieldValues u (filterOrFallback (resources u p)) ''TYPE''
                (resourceTypes u p @ [createCriterionValue u t]))"
    by (simp add: onSelectResourceType_def)
  have twice: "2 \<le> length (filter (\<lambda>c. value c = t) (resourceTypes u p @ [createCriterionValue u t]))"
    if "\<exists>c\<in>set (resourceTypes u p). value c = t" "value (createCriterionValue u t) = t"
    using that by (rule count_filter_append_ge2)
  have rb: "fieldValuesOf u (onSelectResourceType u p t) ''TYPE'' =
                resourceTypes u p @ [createCriterionValue u t]"
    if "readsBack u (filterOrFallback (resources u p)) ''TYPE''
           (resourceTypes u p @ [createCriterionValue u t])"
    using that by (simp add: fieldValuesOf_def handed readsBack_def orEmpty_def)
  show ?thesis
    using privs handed twice rb by simp
qed

theorem select_does_not_deduplicate_witness:
  "''VIEW_ENTITY_PAGE'' \<in> set (privileges exampleProps) \<and> ''VIEW_ENTITY_PAGE'' \<noteq> ''All'' \<and>
   2 \<le> count_list (onSelectPrivilege exampleUtils exampleHooks exampleProps ''VIEW_ENTITY_PAGE'')
         ''VIEW_ENTITY_PAGE'' \<and>
   (\<exists>c\<in>set (resourceTypes exampleUtils exampleProps). value c = ''dataset'') \<and>
   value (createCriterionValue exampleUtils ''dataset'') = ''dataset'' \<and>
   readsBack exampleUtils (filterOrFallback (resources exampleUtils exampleProps)) ''TYPE''
     (resourceTypes exampleUtils exampleProps @ [createCriterionValue exampleUtils ''dataset'']) \<and>
   2 \<le> length (filter (\<lambda>c. value c = ''dataset'')
          (fieldValuesOf exampleUtils
             (onSelectResourceType exampleUtils exampleProps ''dataset'') ''TYPE''))"
proof -
  have h1: "''VIEW_ENTITY_PAGE'' \<in> set (privileges exampleProps)" "''VIEW_ENTITY_PAGE'' \<noteq> ''All''"
    by (simp_all add: exampleProps_def)
  have h2: "\<exists>c\<in>set (resourceTypes exampleUtils exampleProps). value c = ''dataset''"
    by (simp add: example_resourceTypes)
  have h3: "value (createCriterionValue exampleUtils ''dataset'') = ''dataset''"
    by (simp add: exampleUtils_def standInUtils_def)
  have h4: "readsBack exampleUtils (filterOrFallback (resources exampleUtils exampleProps)) ''TYPE''
     (resourceTypes exampleUtils exampleProps @ [createCriterionValue exampleUtils ''dataset''])"
    by code_simp
  from select_does_not_deduplicate
    [of "''VIEW_ENTITY_PAGE''" exampleProps exampleUtils exampleHooks "''dataset''"] h1 h2 h3 h4
  show ?thesis by blast
qed

section \<open>Resource filter handlers: frame and deselection\<close>

text \<open>
  C5: each of the six resource-filter handlers reports the object \<open>resources\<close> of the
  render with only the field \<open>filter\<close> replaced: every other field (the extension part)
  is the one of \<open>resources\<close>. \<open>resources\<close> is the prop after
  \<open>convertLegacyResourceFilter\<close>; where that conversion returns the prop as it is, the
  other fields are those of the prop.
\<close>

theorem handlers_replace_filter_only:
  "(let r = resources u p in
      ResourceFilter.more (onSelectResourceType u p v) = ResourceFilter.more r \<and>
      ResourceFilter.more (onDeselectResourceType u p v) = ResourceFilter.more r \<and>
      ResourceFilter.more (onSelectResource u h p v) = ResourceFilter.more r \<and>
      ResourceFilter.more (onDeselectResource u p v) = ResourceFilter.more r \<and>
      ResourceFilter.more (onSelectDomain u h p v domainObj) = ResourceFilter.more r \<and>
      ResourceFilter.more (onDeselectDomain u p v) = ResourceFilter.more r \<and>
      onSelectResourceType u p v = r\<lparr>filter' := filter' (onSelectResourceType u p v)\<rparr> \<and>
      onDeselectResourceType u p v = r\<lparr>filter' := filter' (onDeselectResourceType u p v)\<rparr> \<and>
      onSelectResource u h p v = r\<lparr>filter' := filter' (onSelectResource u h p v)\<rparr> \<and>
      onDeselectResource u p v = r\<lparr>filter' := filter' (onDeselectResource u p v)\<rparr> \<and>
      onSelectDomain u h p v domainObj = r\<lparr>filter' := filter' (onSelectDomain u h p v domainObj)\<rparr> \<and>
      onDeselectDomain u p v = r\<lparr>filter' := filter' (onDeselectDomain u p v)\<rparr>) \<and>
   (maybeResources p = Some given \<longrightarrow> convertLegacyResourceFilter u (Some given) = Some given \<longrightarrow>
      ResourceFilter.more (onSelectResourceType u p v) = ResourceFilter.more given \<and>
      ResourceFilter.more (onDeselectResourceType u p v) = ResourceFilter.more given \<and>
      ResourceFilter.more (onSelectResource u h p v) = ResourceFilter.more given \<and>
      ResourceFilter.more (onDeselectResource u p v) = ResourceFilter.more given \<and>
      ResourceFilter.more (onSelectDomain u h p v domainObj) = ResourceFilter.more given \<and>
      ResourceFilter.more (onDeselectDomain u p v) = ResourceFilter.more given)"
proof -
  have kept: "ResourceFilter.more (r\<lparr>filter' := f\<rparr>) = ResourceFilter.more r"
    "r\<lparr>filter' := f\<rparr> = r\<lparr>filter' := filter' (r\<lparr>filter' := f\<rparr>)\<rparr>"
    for r :: "'a ResourceFilter_scheme" and f
    by simp_all
  have given: "resources u p = given"
    if "maybeResources p = Some given" "convertLegacyResourceFilter u (Some given) = Some given"
    using that by (simp add: resources_def)
  show ?thesis
    using given by (simp add: resource_handler_defs Let_def)
qed

theorem handlers_replace_filter_only_witness:
  "maybeResources exampleProps = Some exampleResources \<and>
   convertLegacyResourceFilter exampleUtils (Some exampleResources) = Some exampleResources \<and>
   ResourceFilter.more (onSelectResourceType exampleUtils exampleProps ''domain'') =
     ''allResources: false'' \<and>
   ResourceFilter.more (onDeselectResourceType exampleUtils exampleProps ''dataset'') =
     ''allResources: false'' \<and>
   ResourceFilter.more (onSelectResource exampleUtils exampleHooks exampleProps ''urn:li:dataset:1'') =
     ''allResources: false'' \<and>
   ResourceFilter.more (onDeselectResource exampleUtils exampleProps ''urn:li:dataset:2'') =
     ''allResources: false'' \<and>
   ResourceFilter.more (onSelectDomain exampleUtils exampleHooks exampleProps ''urn:li:domain:7'' None) =
     ''allResources: false'' \<and>
   ResourceFilter.more (onDeselectDomain exampleUtils exampleProps ''urn:li:domain:7'') =
     ''allResources: false''"
proof -
  have h1: "maybeResources exampleProps = Some exampleResources"
    by (simp add: exampleProps_def)
  have h2: "convertLegacyResourceFilter exampleUtils (Some exampleResources) = Some exampleResources"
    by (simp add: exampleUtils_def standInUtils_def)
  have m: "ResourceFilter.more exampleResources = ''allResources: false''"
    by (simp add: exampleResources_def)
  from handlers_replace_filter_only
    [of exampleUtils exampleProps "''domain''" exampleHooks None exampleResources]
    handlers_replace_filter_only
    [of exampleUtils exampleProps "''dataset''" exampleHooks None exampleResources]
    handlers_replace_filter_only
    [of exampleUtils exampleProps "''urn:li:dataset:1''" exampleHooks None exampleResources]
    handlers_replace_filter_only
    [of exampleUtils exampleProps "''urn:li:dataset:2''" exampleHooks None exampleResources]
    handlers_replace_filter_only
    [of exampleUtils exampleProps "''urn:li:domain:7''" exampleHooks None exampleResources]
    h1 h2 m
  show ?thesis by simp
qed



section \<open>Search queries\<close>

text \<open>
  C2: \<open>handleResourceSearch\<close> issues the multi-entity query over the entity types that
  \<open>mapResourceTypeToEntityType\<close> gives for the selected resource types, unmapped ones
  dropped; \<open>handleDomainSearch\<close> issues the single-type query with type \<open>Domain\<close>. In
  both the query string is the trimmed text if that is longer than 2 and \<open>'*'\<close>
  otherwise, with start 0 and count 10.
\<close>

theorem search_queries:
  "handleResourceSearch u h p text =
     \<lparr>query = queryFor text, start = 0, count = 10,
      types = List.map_filter
                (\<lambda>resourceType. mapResourceTypeToEntityType u resourceType (resourcePrivilegesOf h))
                (resourceTypeSelectValue u p)\<rparr> \<and>
   snd (handleDomainSearch s text) =
     \<lparr>query = queryFor text, start = 0, count = 10, type = Domain\<rparr> \<and>
   (2 < length (trim text) \<longrightarrow> queryFor text = trim text) \<and>
   (length (trim text) \<le> 2 \<longrightarrow> queryFor text = ''*'') \<and>
   (\<exists>pre suf. text = pre @ trim text @ suf \<and>
      list_all isWhiteSpace pre \<and> list_all isWhiteSpace suf) \<and>
   (trim text \<noteq> [] \<longrightarrow>
      \<not> isWhiteSpace (hd (trim text)) \<and> \<not> isWhiteSpace (last (trim text)))"
proof -
  note trimmed = trim_decomposition [of "text"] trim_ends [of "text"]
  have "handleResourceSearch u h p text =
     \<lparr>query = queryFor text, start = 0, count = 10,
      types = List.map_filter
                (\<lambda>resourceType. mapResourceTypeToEntityType u resourceType (resourcePrivilegesOf h))
                (resourceTypeSelectValue u p)\<rparr>"
    unfolding handleResourceSearch_def Let_def map_the_filter_map queryFor_def ..
  moreover have "snd (handleDomainSearch s text) =
     \<lparr>query = queryFor text, start = 0, count = 10, type = Domain\<rparr>"
    by (simp add: handleDomainSearch_def Let_def queryFor_def)
  ultimately show ?thesis
    using trimmed by (simp add: queryFor_def)
qed

theorem search_queries_witness:
  "2 < length (trim ''  sales data  '') \<and>
   handleResourceSearch exampleUtils exampleHooks exampleProps ''  sales data  '' =
     \<lparr>query = ''sales data'', start = 0, count = 10, types = [OtherEntityType ''dataset'']\<rparr> \<and>
   length (trim [CHR 0x09, CHR ''a'', CHR ''b'', CHR 0xA0]) \<le> 2 \<and>
   snd (handleDomainSearch initialState [CHR 0x09, CHR ''a'', CHR ''b'', CHR 0xA0]) =
     \<lparr>query = ''*'', start = 0, count = 10, type = Domain\<rparr> \<and>
   trim ''  sales data  '' \<noteq> [] \<and>
   \<not> isWhiteSpace (hd (trim ''  sales data  '')) \<and>
   \<not> isWhiteSpace (last (trim ''  sales data  ''))"
proof -
  have t1: "trim ''  sales data  '' = ''sales data''" by code_simp
  have t2: "trim [CHR 0x09, CHR ''a'', CHR ''b'', CHR 0xA0] = ''ab''" by code_simp
  have h1: "2 < length (trim ''  sales data  '')" by (simp add: t1)
  have h2: "length (trim [CHR 0x09, CHR ''a'', CHR ''b'', CHR 0xA0]) \<le> 2" by (simp add: t2)
  have ts: "List.map_filter
      (\<lambda>resourceType. mapResourceTypeToEntityType exampleUtils resourceType
         (resourcePrivilegesOf exampleHooks))
      (resourceTypeSelectValue exampleUtils exampleProps) = [OtherEntityType ''dataset'']"
    by code_simp
  from search_queries [of exampleUtils exampleHooks exampleProps "''  sales data  ''" initialState]
    h1 t1 ts
  have a: "handleResourceSearch exampleUtils exampleHooks exampleProps ''  sales data  '' =
     \<lparr>query = ''sales data'', start = 0, count = 10, types = [OtherEntityType ''dataset'']\<rparr>"
    by simp
  from search_queries [of exampleUtils exampleHooks exampleProps
      "[CHR 0x09, CHR ''a'', CHR ''b'', CHR 0xA0]" initialState] h2
  have b: "snd (handleDomainSearch initialState [CHR 0x09, CHR ''a'', CHR ''b'', CHR 0xA0]) =
     \<lparr>query = ''*'', start = 0, count = 10, type = Domain\<rparr>"
    by simp
  have h3: "trim ''  sales data  '' \<noteq> []" by (simp add: t1)
  from search_queries [of exampleUtils exampleHooks exampleProps "''  sales data  ''" initialState]
    h3
  have c: "\<not> isWhiteSpace (hd (trim ''  sales data  ''))"
    "\<not> isWhiteSpace (last (trim ''  sales data  ''))"
    by blast+
  from h1 a h2 b h3 c show ?thesis by blast
qed

section \<open>Local state and the domain navigator\<close>

text \<open>
  C7: the local state is the pair of the domain search text and the focus flag. The
  navigator flag holds exactly when the input is focused and the search text is empty;
  where the domain input is rendered, the wrapper of the navigator is hidden exactly when
  the flag is false, and the dropdown of the select has the style \<open>display: none\<close>
  exactly when the flag is true. \<open>handleBlur\<close> resets the search text to the empty
  string and leaves the focus flag alone.
\<close>

theorem domain_navigator_state:
  "s = \<lparr>domainInputValue = domainInputValue s, isFocusedOnInput = isFocusedOnInput s\<rparr> \<and>
   (isShowingDomainNavigator s \<longleftrightarrow> isFocusedOnInput s \<and> domainInputValue s = '''') \<and>
   (dropdownStyle s = [(''display'', ''none'')] \<longleftrightarrow> isShowingDomainNavigator s) \<and>
   (\<not> isShowingDomainNavigator s \<longrightarrow> dropdownStyle s = []) \<and>
   (showResourceFilterInput p \<longrightarrow> render u h p s = Inr view \<longrightarrow>
      (\<exists>item. domainItem view = Some item \<and>
         browserWrapper_isHidden item = (\<not> isShowingDomainNavigator s) \<and>
         dropdown item = dropdownStyle s)) \<and>
   handleBlur s = s\<lparr>domainInputValue := ''''\<rparr> \<and>
   domainInputValue (handleBlur s) = '''' \<and>
   isFocusedOnInput (handleBlur s) = isFocusedOnInput s"
proof -
  have shown: "render u h p s = Inr view \<Longrightarrow> showResourceFilterInput p \<Longrightarrow>
      \<exists>item. domainItem view = Some item \<and>
         browserWrapper_isHidden item = (\<not> isShowingDomainNavigator s) \<and>
         dropdown item = dropdownStyle s"
    by (auto simp: render_def split: sum.splits)
  show ?thesis
    using shown by (auto simp: isShowingDomainNavigator_def dropdownStyle_def handleBlur_def)
qed

theorem domain_navigator_state_witness:
  "isShowingDomainNavigator (onFocus initialState) \<and>
   showResourceFilterInput exampleProps \<and>
   (\<exists>view item.
      render exampleUtils exampleHooks exampleProps (onFocus initialState) = Inr view \<and>
      domainItem view = Some item \<and> \<not> browserWrapper_isHidden item \<and>
      dropdown item = [(''display'', ''none'')]) \<and>
   \<not> isShowingDomainNavigator (fst (handleDomainSearch (onFocus initialState) ''fin'')) \<and>
   dropdownStyle (fst (handleDomainSearch (onFocus initialState) ''fin'')) = [] \<and>
   handleBlur (fst (handleDomainSearch (onFocus initialState) ''fin'')) =
     \<lparr>domainInputValue = '''', isFocusedOnInput = True\<rparr>"
proof -
  let ?s = "onFocus initialState" and ?t = "fst (handleDomainSearch (onFocus initialState) ''fin'')"
  let ?view = "projr (render exampleUtils exampleHooks exampleProps ?s)"
  have s: "isFocusedOnInput ?s \<and> domainInputValue ?s = ''''"
    by (simp add: onFocus_def initialState_def)
  have t: "?t = \<lparr>domainInputValue = ''fin'', isFocusedOnInput = True\<rparr>"
    by code_simp
  have shown: "showResourceFilterInput exampleProps"
    by (simp add: showResourceFilterInput_def exampleProps_def)
  note at_s = domain_navigator_state [of ?s exampleProps exampleUtils exampleHooks ?view]
  note at_t = domain_navigator_state [of ?t exampleProps exampleUtils exampleHooks ?view]
  from at_s s have flag: "isShowingDomainNavigator ?s"
    and style: "dropdownStyle ?s = [(''display'', ''none'')]"
    by blast+
  from at_s shown example_render flag style
  have "\<exists>item. domainItem ?view = Some item \<and> \<not> browserWrapper_isHidden item \<and>
      dropdown item = [(''display'', ''none'')]"
    by auto
  with example_render have rendered: "\<exists>view item.
      render exampleUtils exampleHooks exampleProps ?s = Inr view \<and>
      domainItem view = Some item \<and> \<not> browserWrapper_isHidden item \<and>
      dropdown item = [(''display'', ''none'')]"
    by blast
  from at_t t have noflag: "\<not> isShowingDomainNavigator ?t" and nostyle: "dropdownStyle ?t = []"
    by auto
  from at_t t have blur: "handleBlur ?t = \<lparr>domainInputValue = '''', isFocusedOnInput = True\<rparr>"
    by simp
  from flag shown rendered noflag nostyle blur show ?thesis by blast
qed

section \<open>Policy type\<close>

text \<open>
  C9: for the policy type Platform none of the three filter inputs is rendered and the
  privilege options are the platform privileges of the policies configuration; for any
  other policy type the three inputs are rendered, the privilege options are what
  \<open>mapResourceTypeToPrivileges\<close> gives for the selected resource types, and the options
  of the resource-type select are the resource privileges without those whose
  \<open>resourceType\<close> is \<open>'all'\<close>.
\<close>

theorem policy_type_decides_inputs:
  "(policyType p = Platform \<longrightarrow>
      \<not> showResourceFilterInput p \<and>
      privilegeOptions u h p = platformPrivilegesOf h \<and>
      (\<forall>c. policiesConfig h = Some c \<longrightarrow> privilegeOptions u h p = platformPrivileges c) \<and>
      (render u h p s = Inr view \<longrightarrow>
         resourceTypeItem view = None \<and> resourceItem view = None \<and> domainItem view = None)) \<and>
   (policyType p \<noteq> Platform \<longrightarrow>
      showResourceFilterInput p \<and>
      privilegeOptions u h p =
        mapResourceTypeToPrivileges u (map value (resourceTypes u p)) (resourcePrivilegesOf h) \<and>
      (render u h p s = Inr view \<longrightarrow>
         (\<exists>types res doms.
            resourceTypeItem view = Some types \<and> resourceItem view = Some res \<and>
            domainItem view = Some doms \<and>
            ''all'' \<notin> fst ` set (options types) \<and>
            options types =
              map (\<lambda>rp. (resourceType rp, resourceTypeDisplayName rp))
                (filter (\<lambda>rp. resourceType rp \<noteq> ''all'') (resourcePrivilegesOf h)))))"
proof -
  have platform: "resourceTypeItem view = None \<and> resourceItem view = None \<and> domainItem view = None"
    if "policyType p = Platform" "render u h p s = Inr view"
    using that by (auto simp: render_def showResourceFilterInput_def split: sum.splits)
  have noall: "''all'' \<notin> fst ` set (resourceTypeOptions h)"
    by (auto simp: resourceTypeOptions_def)
  have other: "\<exists>types res doms.
            resourceTypeItem view = Some types \<and> resourceItem view = Some res \<and>
            domainItem view = Some doms \<and>
            ''all'' \<notin> fst ` set (options types) \<and>
            options types =
              map (\<lambda>rp. (resourceType rp, resourceTypeDisplayName rp))
                (filter (\<lambda>rp. resourceType rp \<noteq> ''all'') (resourcePrivilegesOf h))"
    if "policyType p \<noteq> Platform" "render u h p s = Inr view"
  proof -
    from that obtain dsv where
      "resourceTypeItem view = Some \<lparr>selected = resourceTypeSelectValue u p,
                         options = resourceTypeOptions h,
                         tags = map (resourceTypeTag u h) (resourceTypeSelectValue u p)\<rparr>"
      "\<exists>res. resourceItem view = Some res" "\<exists>doms. domainItem view = Some doms"
      by (auto simp: render_def showResourceFilterInput_def split: sum.splits)
    with noall show ?thesis
      by (auto simp: resourceTypeOptions_def)
  qed
  have opts: "policyType p = Platform \<Longrightarrow> privilegeOptions u h p = platformPrivilegesOf h"
    "policyType p \<noteq> Platform \<Longrightarrow> privilegeOptions u h p =
        mapResourceTypeToPrivileges u (map value (resourceTypes u p)) (resourcePrivilegesOf h)"
    by (simp_all add: privilegeOptions_def resourcePrivilegesForType_def resourceTypeSelectValue_def)
  have cfg: "policiesConfig h = Some c \<Longrightarrow> platformPrivilegesOf h = platformPrivileges c" for c
    by (simp add: platformPrivilegesOf_def)
  show ?thesis
    using platform other opts cfg by (simp add: showResourceFilterInput_def)
qed

theorem policy_type_decides_inputs_witness:
  "policyType absentProps = Platform \<and>
   policiesConfig exampleHooks = Some exampleConfig \<and>
   privilegeOptions exampleUtils exampleHooks absentProps = platformPrivileges exampleConfig \<and>
   (\<exists>view. render exampleUtils exampleHooks absentProps initialState = Inr view \<and>
      resourceTypeItem view = None \<and> resourceItem view = None \<and> domainItem view = None) \<and>
   policyType exampleProps \<noteq> Platform \<and>
   privilegeOptions exampleUtils exampleHooks exampleProps =
     [\<lparr>Privilege.type = ''dataset'', displayName = ''Datasets''\<rparr>,
      \<lparr>Privilege.type = ''all'', displayName = ''All''\<rparr>] \<and>
   (\<exists>view types.
      render exampleUtils exampleHooks exampleProps (onFocus initialState) = Inr view \<and>
      resourceTypeItem view = Some types \<and> resourceItem view \<noteq> None \<and>
      domainItem view \<noteq> None \<and>
      options types = [(''dataset'', ''Datasets''), (''domain'', ''Domains'')])"
proof -
  let ?pv = "projr (render exampleUtils exampleHooks absentProps initialState)"
  let ?ov = "projr (render exampleUtils exampleHooks exampleProps (onFocus initialState))"
  have p1: "policyType absentProps = Platform" by (simp add: absentProps_def)
  have p2: "policiesConfig exampleHooks = Some exampleConfig" by (simp add: exampleHooks_def)
  have o1: "policyType exampleProps \<noteq> Platform" by (simp add: exampleProps_def)
  have o2: "mapResourceTypeToPrivileges exampleUtils (map value (resourceTypes exampleUtils exampleProps))
      (resourcePrivilegesOf exampleHooks) =
     [\<lparr>Privilege.type = ''dataset'', displayName = ''Datasets''\<rparr>,
      \<lparr>Privilege.type = ''all'', displayName = ''All''\<rparr>]"
    by code_simp
  have o3: "map (\<lambda>rp. (resourceType rp, resourceTypeDisplayName rp))
      (filter (\<lambda>rp. resourceType rp \<noteq> ''all'') (resourcePrivilegesOf exampleHooks)) =
     [(''dataset'', ''Datasets''), (''domain'', ''Domains'')]"
    by code_simp
  note at_p = policy_type_decides_inputs [of absentProps exampleUtils exampleHooks initialState ?pv]
  note at_o = policy_type_decides_inputs
    [of exampleProps exampleUtils exampleHooks "onFocus initialState" ?ov]
  from at_p p1 p2 have a: "privilegeOptions exampleUtils exampleHooks absentProps =
      platformPrivileges exampleConfig"
    by blast
  from at_p p1 platform_render
  have "resourceTypeItem ?pv = None \<and> resourceItem ?pv = None \<and> domainItem ?pv = None"
    by blast
  with platform_render
  have b: "\<exists>view. render exampleUtils exampleHooks absentProps initialState = Inr view \<and>
      resourceTypeItem view = None \<and> resourceItem view = None \<and> domainItem view = None"
    by blast
  from at_o o1 o2 have c: "privilegeOptions exampleUtils exampleHooks exampleProps =
     [\<lparr>Privilege.type = ''dataset'', displayName = ''Datasets''\<rparr>,
      \<lparr>Privilege.type = ''all'', displayName = ''All''\<rparr>]"
    by simp
  from at_o o1 example_render o3
  have "\<exists>types. resourceTypeItem ?ov = Some types \<and> resourceItem ?ov \<noteq> None \<and>
      domainItem ?ov \<noteq> None \<and>
      options types = [(''dataset'', ''Datasets''), (''domain'', ''Domains'')]"
    by auto
  with example_render
  have d: "\<exists>view types.
      render exampleUtils exampleHooks exampleProps (onFocus initialState) = Inr view \<and>
      resourceTypeItem view = Some types \<and> resourceItem view \<noteq> None \<and>
      domainItem view \<noteq> None \<and>
      options types = [(''dataset'', ''Datasets''), (''domain'', ''Domains'')]"
    by blast
  from p1 p2 a b o1 c d show ?thesis by blast
qed

section \<open>Display strings\<close>

text \<open>
  C10, as the code has it: \<open>displayStringWithMaxLength(s, L)\<close> is \<open>s\<close> when \<open>s\<close> has at most
  \<open>L\<close> characters, and otherwise the first \<open>L\<close> characters of \<open>s\<close> followed by \<open>'...'\<close>,
  of length \<open>L + 3\<close>. In every rendered tag of the resource select and of the domain
  select whose value is not \<open>__proto__\<close>, it is applied with bound 75 to the display name
  known for the value, and to the value itself when none is known. The tags of the
  resource-type select show \<open>mapResourceTypeToDisplayName\<close> of the value as it is.
\<close>

theorem display_string_bound:
  "(length str \<le> L \<longrightarrow> displayStringWithMaxLength str L = str) \<and>
   (L < length str \<longrightarrow>
      displayStringWithMaxLength str L = take L str @ ''...'' \<and>
      length (displayStringWithMaxLength str L) = L + 3) \<and>
   (render u h p s = Inr view \<longrightarrow>
      (\<forall>item. resourceTypeItem view = Some item \<longrightarrow>
         tags item =
           map (\<lambda>v. Str (mapResourceTypeToDisplayName u v (resourcePrivilegesOf h)))
             (selected item)) \<and>
      (\<forall>item. resourceItem view = Some item \<longrightarrow>
         selected item = map value (resourceEntities u p) \<and>
         list_all2
           (\<lambda>v tag. v \<noteq> ''__proto__'' \<longrightarrow>
              tag = Str (displayStringWithMaxLength
                     (case knownDisplayName h (resourceEntities u p) v of
                        None \<Rightarrow> v | Some n \<Rightarrow> n) 75))
           (selected item) (tags item)) \<and>
      (\<forall>item. domainItem view = Some item \<longrightarrow>
         selected item = map value (domains u p) \<and>
         list_all2
           (\<lambda>v tag. v \<noteq> ''__proto__'' \<longrightarrow>
              tag = Str (displayStringWithMaxLength
                     (case knownDisplayName h (domains u p) v of
                        None \<Rightarrow> v | Some n \<Rightarrow> n) 75))
           (selected item) (tags item)))"
proof -
  have short: "length str \<le> L \<Longrightarrow> displayStringWithMaxLength str L = str"
    by (simp add: displayStringWithMaxLength_def)
  have long: "displayStringWithMaxLength str L = take L str @ ''...''"
    "length (displayStringWithMaxLength str L) = L + 3" if "L < length str"
    using that by (simp_all add: displayStringWithMaxLength_def min_def)
  have rendered:
    "(\<forall>item. resourceTypeItem view = Some item \<longrightarrow>
         tags item =
           map (\<lambda>v. Str (mapResourceTypeToDisplayName u v (resourcePrivilegesOf h)))
             (selected item)) \<and>
      (\<forall>item. resourceItem view = Some item \<longrightarrow>
         selected item = map value (resourceEntities u p) \<and>
         list_all2
           (\<lambda>v tag. v \<noteq> ''__proto__'' \<longrightarrow>
              tag = Str (displayStringWithMaxLength
                     (case knownDisplayName h (resourceEntities u p) v of
                        None \<Rightarrow> v | Some n \<Rightarrow> n) 75))
           (selected item) (tags item)) \<and>
      (\<forall>item. domainItem view = Some item \<longrightarrow>
         selected item = map value (domains u p) \<and>
         list_all2
           (\<lambda>v tag. v \<noteq> ''__proto__'' \<longrightarrow>
              tag = Str (displayStringWithMaxLength
                     (case knownDisplayName h (domains u p) v of
                        None \<Rightarrow> v | Some n \<Rightarrow> n) 75))
           (selected item) (tags item))"
    if "render u h p s = Inr view"
  proof -
    from that obtain resourceNames domainNames vs where
      rn: "resourceUrnToDisplayName u h p = Inr resourceNames"
      and dn: "domainUrnToDisplayName u h p = Inr domainNames"
      and vs: "getFieldValues u (filter' (resources u p)) ''DOMAIN'' = Some vs"
      and items:
        "resourceTypeItem view =
           (if showResourceFilterInput p
            then Some \<lparr>selected = resourceTypeSelectValue u p,
                       options = resourceTypeOptions h,
                       tags = map (resourceTypeTag u h) (resourceTypeSelectValue u p)\<rparr>
            else None)"
        "resourceItem view =
           (if showResourceFilterInput p
            then Some \<lparr>selected = resourceSelectValue u p,
                       options = searchResultOptions h (resourceSearchResults h),
                       tags = map (displayNameTag resourceNames) (resourceSelectValue u p)\<rparr>
            else None)"
        "domainItem view =
           (if showResourceFilterInput p
            then Some \<lparr>selected = map value vs,
                       options = searchResultOptions h (domainSearchResults h),
                       tags = map (displayNameTag domainNames) (map value vs),
                       dropdown = dropdownStyle s,
                       browserWrapper_isHidden = (\<not> isShowingDomainNavigator s)\<rparr>
            else None)"
      by (rule render_parts)
    from vs have doms: "domains u p = vs"
      by (simp add: domains_def orEmpty_def)
    note res_tags = displayNameTags_known
      [OF rn [unfolded resourceUrnToDisplayName_def]]
    note dom_tags = displayNameTags_known
      [OF dn [unfolded domainUrnToDisplayName_def], unfolded doms]
    have types: "tags item =
           map (\<lambda>v. Str (mapResourceTypeToDisplayName u v (resourcePrivilegesOf h)))
             (selected item)" if "resourceTypeItem view = Some item" for item
      using that items(1) by (auto simp: resourceTypeTag_def split: if_splits)
    have res: "selected item = map value (resourceEntities u p) \<and>
         list_all2
           (\<lambda>v tag. v \<noteq> ''__proto__'' \<longrightarrow>
              tag = Str (displayStringWithMaxLength
                     (case knownDisplayName h (resourceEntities u p) v of
                        None \<Rightarrow> v | Some n \<Rightarrow> n) 75))
           (selected item) (tags item)" if "resourceItem view = Some item" for item
      using that items(2) res_tags by (auto simp: resourceSelectValue_def split: if_splits)
    have dom: "selected item = map value (domains u p) \<and>
         list_all2
           (\<lambda>v tag. v \<noteq> ''__proto__'' \<longrightarrow>
              tag = Str (displayStringWithMaxLength
                     (case knownDisplayName h (domains u p) v of
                        None \<Rightarrow> v | Some n \<Rightarrow> n) 75))
           (selected item) (tags item)" if "domainItem view = Some item" for item
      using that items(3) dom_tags doms by (auto split: if_splits)
    from types res dom show ?thesis by blast
  qed
  show ?thesis
    using short long rendered by blast
qed

theorem display_string_bound_witness:
  "length ''urn:li:domain:7'' \<le> 75 \<and>
   displayStringWithMaxLength ''urn:li:domain:7'' 75 = ''urn:li:domain:7'' \<and>
   75 < length (replicate 80 CHR ''x'') \<and>
   displayStringWithMaxLength (replicate 80 CHR ''x'') 75 = replicate 75 CHR ''x'' @ ''...'' \<and>
   length (displayStringWithMaxLength (replicate 80 CHR ''x'') 75) = 78 \<and>
   displayStringWithMaxLength ''abcdefgh'' 5 = ''abcde...'' \<and>
   (\<exists>view types res doms.
      render exampleUtils exampleHooks exampleProps (onFocus initialState) = Inr view \<and>
      resourceTypeItem view = Some types \<and>
      resourceItem view = Some res \<and> domainItem view = Some doms \<and>
      tags types = [Str ''Datasets'', Str ''All''] \<and>
      selected res = [''urn:li:dataset:1'', ''urn:li:dataset:2''] \<and>
      tags res = [Str ''name of urn:li:dataset:1'', Str ''urn:li:dataset:2''] \<and>
      selected doms = [''urn:li:domain:7''] \<and>
      tags doms = [Str ''name of urn:li:domain:7''])"
proof -
  let ?ov = "projr (render exampleUtils exampleHooks exampleProps (onFocus initialState))"
  note at = display_string_bound
    [of _ _ exampleUtils exampleHooks exampleProps "onFocus initialState" ?ov]
  have l1: "length ''urn:li:domain:7'' \<le> 75" by simp
  have l2: "75 < length (replicate 80 CHR ''x'')" by simp
  have l3: "5 < length ''abcdefgh''" by simp
  from at [of "''urn:li:domain:7''" 75] l1
  have a: "displayStringWithMaxLength ''urn:li:domain:7'' 75 = ''urn:li:domain:7''"
    by blast
  from at [of "replicate 80 CHR ''x''" 75] l2
  have b: "displayStringWithMaxLength (replicate 80 CHR ''x'') 75 =
             take 75 (replicate 80 CHR ''x'') @ ''...''"
    and c: "length (displayStringWithMaxLength (replicate 80 CHR ''x'') 75) = 75 + 3"
    by blast+
  from at [of "''abcdefgh''" 5] l3
  have d: "displayStringWithMaxLength ''abcdefgh'' 5 = ''abcde...''"
    by simp
  have some: "resourceTypeItem ?ov \<noteq> None" "resourceItem ?ov \<noteq> None" "domainItem ?ov \<noteq> None"
    by code_simp+
  then obtain types res doms where items: "resourceTypeItem ?ov = Some types"
    "resourceItem ?ov = Some res" "domainItem ?ov = Some doms"
    by auto
  have vals: "map value (resourceEntities exampleUtils exampleProps) =
      [''urn:li:dataset:1'', ''urn:li:dataset:2'']"
    "map value (domains exampleUtils exampleProps) = [''urn:li:domain:7'']"
    by code_simp+
  have names: "knownDisplayName exampleHooks (resourceEntities exampleUtils exampleProps)
       ''urn:li:dataset:1'' = Some ''name of urn:li:dataset:1''"
    "knownDisplayName exampleHooks (resourceEntities exampleUtils exampleProps)
       ''urn:li:dataset:2'' = None"
    "knownDisplayName exampleHooks (domains exampleUtils exampleProps)
       ''urn:li:domain:7'' = Some ''name of urn:li:domain:7''"
    by code_simp+
  have typenames: "map_option selected (resourceTypeItem ?ov) = Some [''dataset'', ''all'']"
    "mapResourceTypeToDisplayName exampleUtils ''dataset'' (resourcePrivilegesOf exampleHooks)
       = ''Datasets''"
    "mapResourceTypeToDisplayName exampleUtils ''all'' (resourcePrivilegesOf exampleHooks)
       = ''All''"
    by code_simp+
  from at [of "''x''" 75] example_render items
  have t: "tags types =
       map (\<lambda>v. Str (mapResourceTypeToDisplayName exampleUtils v (resourcePrivilegesOf exampleHooks)))
         (selected types)"
    and r: "selected res = map value (resourceEntities exampleUtils exampleProps)"
      "list_all2
           (\<lambda>v tag. v \<noteq> ''__proto__'' \<longrightarrow>
              tag = Str (displayStringWithMaxLength
                     (case knownDisplayName exampleHooks (resourceEntities exampleUtils exampleProps) v of
                        None \<Rightarrow> v | Some n \<Rightarrow> n) 75))
           (selected res) (tags res)"
    and dm: "selected doms = map value (domains exampleUtils exampleProps)"
      "list_all2
           (\<lambda>v tag. v \<noteq> ''__proto__'' \<longrightarrow>
              tag = Str (displayStringWithMaxLength
                     (case knownDisplayName exampleHooks (domains exampleUtils exampleProps) v of
                        None \<Rightarrow> v | Some n \<Rightarrow> n) 75))
           (selected doms) (tags doms)"
    by blast+
  from t typenames items(1) have t': "tags types = [Str ''Datasets'', Str ''All'']"
    by simp
  from r vals(1) names(1,2) have r': "selected res = [''urn:li:dataset:1'', ''urn:li:dataset:2'']"
    "tags res = [Str ''name of urn:li:dataset:1'', Str ''urn:li:dataset:2'']"
    by (auto simp: list_all2_Cons1 displayStringWithMaxLength_def)
  from dm vals(2) names(3) have d': "selected doms = [''urn:li:domain:7'']"
    "tags doms = [Str ''name of urn:li:domain:7'']"
    by (auto simp: list_all2_Cons1 displayStringWithMaxLength_def)
  from example_render items t' r' d'
  have g: "\<exists>view types res doms.
      render exampleUtils exampleHooks exampleProps (onFocus initialState) = Inr view \<and>
      resourceTypeItem view = Some types \<and>
      resourceItem view = Some res \<and> domainItem view = Some doms \<and>
      tags types = [Str ''Datasets'', Str ''All''] \<and>
      selected res = [''urn:li:dataset:1'', ''urn:li:dataset:2''] \<and>
      tags res = [Str ''name of urn:li:dataset:1'', Str ''urn:li:dataset:2''] \<and>
      selected doms = [''urn:li:domain:7''] \<and>
      tags doms = [Str ''name of urn:li:domain:7'']"
    by blast
  from l1 a l2 b c d g show ?thesis
    by simp
qed

text \<open>
  C10 as stated fails on two counts. The URN value \<open>__proto__\<close> has a known display
  name, yet its tag is \<open>Map.prototype\<close>, the value that the read of the lookup object
  gives, and not the display name cut to 75 characters. And the tag of a resource type
  shows its display name of 80 characters in full.
\<close>

theorem every_tag_bounded_counterexample:
  "render exampleUtils longNameHooks protoProps initialState =
     Inr (projr (render exampleUtils longNameHooks protoProps initialState)) \<and>
   map_option selected (resourceItem (projr (render exampleUtils longNameHooks protoProps initialState)))
     = Some [''__proto__''] \<and>
   knownDisplayName longNameHooks (resourceEntities exampleUtils protoProps) ''__proto__''
     = Some ''name of __proto__'' \<and>
   map_option tags (resourceItem (projr (render exampleUtils longNameHooks protoProps initialState)))
     = Some [Inherited ''__proto__''] \<and>
   map_option tags (resourceItem (projr (render exampleUtils longNameHooks protoProps initialState)))
     \<noteq> Some [Str (displayStringWithMaxLength ''name of __proto__'' 75)] \<and>
   map_option tags (resourceTypeItem (projr (render exampleUtils longNameHooks protoProps initialState)))
     = Some [Str (replicate 80 CHR ''n'')] \<and>
   map_option tags (resourceTypeItem (projr (render exampleUtils longNameHooks protoProps initialState)))
     \<noteq> Some [Str (displayStringWithMaxLength (replicate 80 CHR ''n'') 75)]"
  by code_simp

section \<open>Absent resources\<close>




end
